theory Spec2Isabelle
  imports Complex_Main "HOL-Library.List_Lexorder" "HOL-Library.Char_ord" "HOL-Library.Multiset"
    "HOL-Library.Log_Nat"
begin

section \<open>CreditRadar: the ledger store of \<^verbatim>\<open>src/App.jsx\<close>\<close>

text \<open>
  The store is the React state \<^verbatim>\<open>{ platforms, transactions }\<close> of the component
  \<^verbatim>\<open>App\<close>. Every mutation is a \<^verbatim>\<open>setState(s => ...)\<close> updater; it is modelled as a
  function from the state to the new state. An event handler reads the state of the
  current render (\<^verbatim>\<open>state\<close>) and queues updaters that React applies to that same state,
  so the handler as a whole is a function of one state.

  JavaScript numbers are binary64 values and their arithmetic rounds; both are modelled
  below. Identifiers produced by \<^verbatim>\<open>crypto.randomUUID()\<close> are passed in as arguments.
\<close>

subsection \<open>JavaScript numbers\<close>

text \<open>
  A number is \<^verbatim>\<open>NaN\<close>, \<^verbatim>\<open>Infinity\<close>, \<^verbatim>\<open>-Infinity\<close> or a finite binary64 value, given by
  the rational it stands for; the number that a decimal literal or a typed-in decimal \<open>d\<close>
  denotes is \<open>round64 d\<close>. The two zeros are not told apart: no operation of the store
  divides by a zero or shows the sign of one.
\<close>

datatype jsnum = NaN | PInf | NInf | Fin rat

definition pow2 :: "int \<Rightarrow> rat" where
  "pow2 k = (if 0 \<le> k then 2 ^ nat k else 1 / 2 ^ nat (- k))"

text \<open>The binary exponent of a positive rational: \<open>pow2 e \<le> x < pow2 (e + 1)\<close>.\<close>

definition exponent :: "rat \<Rightarrow> int" where
  "exponent x = (if 1 \<le> x then bitlen \<lfloor>x\<rfloor> - 1 else - bitlen (\<lceil>1 / x\<rceil> - 1))"

definition round_half_even :: "rat \<Rightarrow> int" where
  "round_half_even y =
     (let f = \<lfloor>y\<rfloor>; d = y - of_int f
      in if d < 1 / 2 then f else if 1 / 2 < d then f + 1 else if even f then f else f + 1)"

text \<open>
  Rounding to binary64, to the nearest value and at a tie to the one with an even
  significand. A value with exponent \<open>e\<close> is a multiple of \<open>pow2 (e - 52)\<close>, below the
  normal range of \<open>pow2 (- 1074)\<close>; what rounds to \<open>pow2 1024\<close> or more is infinite, which
  needs an exponent of 1023 at least.
\<close>

definition round64 :: "rat \<Rightarrow> jsnum" where
  "round64 x =
     (if x = 0 then Fin 0
      else
        let a = \<bar>x\<bar>;
            e = max (exponent a) (- 1022);
            q = pow2 (e - 52);
            m = of_int (round_half_even (a / q)) * q
        in if e < 1023 then Fin (if x < 0 then - m else m)
           else if pow2 1024 \<le> m then (if x < 0 then NInf else PInf)
           else Fin (if x < 0 then - m else m))"

text \<open>
  \<^verbatim>\<open>a + b\<close>, \<^verbatim>\<open>a / b\<close>, \<^verbatim>\<open>Math.abs\<close>, \<^verbatim>\<open>Math.floor\<close>, \<^verbatim>\<open>a < b\<close> and \<^verbatim>\<open>a <= b\<close> on
  numbers: the exact result, rounded. A zero divisor is taken as the positive zero.
\<close>

fun js_add :: "jsnum \<Rightarrow> jsnum \<Rightarrow> jsnum" where
  "js_add (Fin a) (Fin b) = round64 (a + b)"
| "js_add NaN _ = NaN"
| "js_add _ NaN = NaN"
| "js_add PInf NInf = NaN"
| "js_add NInf PInf = NaN"
| "js_add PInf _ = PInf"
| "js_add _ PInf = PInf"
| "js_add NInf _ = NInf"
| "js_add _ NInf = NInf"

fun js_div :: "jsnum \<Rightarrow> jsnum \<Rightarrow> jsnum" where
  "js_div (Fin a) (Fin b) =
     (if b = 0 then (if a = 0 then NaN else if 0 < a then PInf else NInf)
      else round64 (a / b))"
| "js_div NaN _ = NaN"
| "js_div _ NaN = NaN"
| "js_div (Fin a) _ = Fin 0"
| "js_div PInf (Fin b) = (if b < 0 then NInf else PInf)"
| "js_div NInf (Fin b) = (if b < 0 then PInf else NInf)"
| "js_div _ _ = NaN"

fun js_abs :: "jsnum \<Rightarrow> jsnum" where
  "js_abs (Fin a) = Fin \<bar>a\<bar>"
| "js_abs NaN = NaN"
| "js_abs _ = PInf"


fun js_less :: "jsnum \<Rightarrow> jsnum \<Rightarrow> bool" where
  "js_less (Fin a) (Fin b) = (a < b)"
| "js_less NaN _ = False"
| "js_less _ NaN = False"
| "js_less _ NInf = False"
| "js_less NInf _ = True"
| "js_less PInf _ = False"
| "js_less _ PInf = True"


subsection \<open>Data model\<close>

record platform =
  p_id :: string
  p_name :: string
  p_credits :: jsnum
  p_color :: string
  p_unit :: string
  p_account :: string
  p_monthlyAllowance :: jsnum

text \<open>\<^verbatim>\<open>project\<close> and \<^verbatim>\<open>note\<close> are optional: \<open>None\<close> is an absent property.\<close>

record transaction =
  t_id :: string
  t_platform :: string
  t_amount :: jsnum
  t_project :: "string option"
  t_note :: "string option"
  t_date :: string

record state =
  platforms :: "platform list"
  transactions :: "transaction list"

text \<open>
  The object handed to \<^verbatim>\<open>addTransaction\<close>: the form of \<^verbatim>\<open>TransactionDrawer\<close>, which has
  no \<^verbatim>\<open>id\<close> property.
\<close>

record txn_form =
  f_platform :: string
  f_amount :: jsnum
  f_project :: "string option"
  f_note :: "string option"
  f_date :: string

text \<open>
  The argument of \<^verbatim>\<open>addCustomPlatform\<close>. A string property may be absent; the numeric
  ones hold the value of \<^verbatim>\<open>Number(...)\<close>, which is \<^verbatim>\<open>NaN\<close> for an absent or non-numeric
  property.
\<close>

record custom_form =
  c_name :: "string option"
  c_credits :: jsnum
  c_color :: "string option"
  c_unit :: "string option"
  c_account :: "string option"
  c_monthlyAllowance :: jsnum

text \<open>The \<^verbatim>\<open>patch\<close> of \<^verbatim>\<open>updatePlatform\<close>: the properties present are overwritten.\<close>

record patch =
  u_name :: "string option"
  u_credits :: "jsnum option"
  u_color :: "string option"
  u_unit :: "string option"
  u_account :: "string option"
  u_monthlyAllowance :: "jsnum option"

text \<open>
  A handler that stops at a guard returns before any \<^verbatim>\<open>setState\<close>: silently
  (\<^verbatim>\<open>return;\<close>) or after \<^verbatim>\<open>alert(msg)\<close>.
\<close>

datatype rejected = Silent | Alert string

definition state_after :: "state \<Rightarrow> rejected + state \<Rightarrow> state" where
  "state_after s r = (case r of Inl _ \<Rightarrow> s | Inr s' \<Rightarrow> s')"

subsection \<open>JavaScript helpers\<close>

text \<open>\<^verbatim>\<open>x || d\<close> on an optional string: absent and empty are both falsy.\<close>

definition or_str :: "string option \<Rightarrow> string \<Rightarrow> string" where
  "or_str x d = (case x of None \<Rightarrow> d | Some v \<Rightarrow> (if v = [] then d else v))"

text \<open>\<^verbatim>\<open>Number(x) || 0\<close>: \<^verbatim>\<open>NaN\<close> and \<^verbatim>\<open>0\<close> are both falsy.\<close>

definition or_zero :: "jsnum \<Rightarrow> jsnum" where
  "or_zero x = (if x = NaN \<or> x = Fin 0 then Fin 0 else x)"

text \<open>
  \<^verbatim>\<open>String.prototype.trim\<close> and \<^verbatim>\<open>toLowerCase\<close> on the ASCII range: the white space
  characters are tab, line feed, vertical tab, form feed, carriage return and space, and
  the letters \<^verbatim>\<open>A\<close> to \<^verbatim>\<open>Z\<close> are mapped to \<^verbatim>\<open>a\<close> to \<^verbatim>\<open>z\<close>.
\<close>

definition is_space :: "char \<Rightarrow> bool" where
  "is_space c = (of_char c \<in> {9, 10, 11, 12, 13, 32 :: nat})"

definition trim :: "string \<Rightarrow> string" where
  "trim s = rev (dropWhile is_space (rev (dropWhile is_space s)))"

definition lower_char :: "char \<Rightarrow> char" where
  "lower_char c =
     (let n = of_char c :: nat in if 65 \<le> n \<and> n \<le> 90 then char_of (n + 32) else c)"

definition toLowerCase :: "string \<Rightarrow> string" where
  "toLowerCase s = map lower_char s"

subsection \<open>Presets\<close>

definition PLATFORM_PRESETS :: "(string \<times> string) list" where
  "PLATFORM_PRESETS =
     [(''Higgsfield'', ''#34d399''), (''Suno'', ''#60a5fa''), (''Google Flow'', ''#fbbf24''),
      (''Runway'', ''#f472b6''), (''Pika'', ''#a78bfa''), (''Luma'', ''#22d3ee'')]"

subsection \<open>Mutations\<close>

definition addPlatform :: "string \<Rightarrow> string \<Rightarrow> state \<Rightarrow> rejected + state" where
  "addPlatform uuid presetName s =
     (if presetName = [] then Inl Silent
      else
        let color = (case find (\<lambda>p. fst p = presetName) PLATFORM_PRESETS of
                       Some p \<Rightarrow> snd p | None \<Rightarrow> ''#64748b'');
            exists = list_ex (\<lambda>p. p_name p = presetName) (platforms s)
        in if exists then Inl (Alert ''Platform already added.'')
           else Inr (s\<lparr>platforms := platforms s @
                  [\<lparr>p_id = uuid, p_name = presetName, p_credits = Fin 0, p_color = color,
                    p_unit = ''credits'', p_account = ''main'',
                    p_monthlyAllowance = Fin 0\<rparr>]\<rparr>))"

definition addCustomPlatform :: "string \<Rightarrow> custom_form \<Rightarrow> state \<Rightarrow> rejected + state" where
  "addCustomPlatform uuid custom s =
     (let trimmed = trim (or_str (c_name custom) [])
      in if trimmed = [] then Inl (Alert ''Name is required'')
         else if list_ex (\<lambda>p. toLowerCase (p_name p) = toLowerCase trimmed) (platforms s)
         then Inl (Alert ''A platform with that name already exists.'')
         else Inr (s\<lparr>platforms := platforms s @
                [\<lparr>p_id = uuid, p_name = trimmed, p_credits = or_zero (c_credits custom),
                  p_color = or_str (c_color custom) ''#64748b'',
                  p_unit = or_str (c_unit custom) ''credits'',
                  p_account = or_str (c_account custom) ''main'',
                  p_monthlyAllowance = or_zero (c_monthlyAllowance custom)\<rparr>]\<rparr>))"

text \<open>\<^verbatim>\<open>{ ...p, ...patch }\<close>\<close>

definition merge_patch :: "platform \<Rightarrow> patch \<Rightarrow> platform" where
  "merge_patch p u =
     p\<lparr>p_name := (case u_name u of None \<Rightarrow> p_name p | Some v \<Rightarrow> v),
       p_credits := (case u_credits u of None \<Rightarrow> p_credits p | Some v \<Rightarrow> v),
       p_color := (case u_color u of None \<Rightarrow> p_color p | Some v \<Rightarrow> v),
       p_unit := (case u_unit u of None \<Rightarrow> p_unit p | Some v \<Rightarrow> v),
       p_account := (case u_account u of None \<Rightarrow> p_account p | Some v \<Rightarrow> v),
       p_monthlyAllowance :=
         (case u_monthlyAllowance u of None \<Rightarrow> p_monthlyAllowance p | Some v \<Rightarrow> v)\<rparr>"

definition updatePlatform :: "string \<Rightarrow> patch \<Rightarrow> state \<Rightarrow> state" where
  "updatePlatform i u s =
     s\<lparr>platforms := map (\<lambda>p. if p_id p = i then merge_patch p u else p) (platforms s)\<rparr>"

text \<open>
  \<^verbatim>\<open>platformMap\<close> is \<^verbatim>\<open>Object.fromEntries(state.platforms.map(p => [p.name, p]))\<close>: a later
  entry overwrites an earlier one with the same name.
\<close>

definition platformMap :: "platform list \<Rightarrow> (string \<rightharpoonup> platform)" where
  "platformMap ps = map_of (rev (map (\<lambda>p. (p_name p, p)) ps))"

text \<open>
  \<^verbatim>\<open>(platformMap[t.platform]?.id ?? null) !== id && t.platform !== (s.platforms.find(p=>p.id===id)?.name)\<close>.
  A missing map entry gives \<^verbatim>\<open>null\<close>, a missing platform gives \<^verbatim>\<open>undefined\<close>; neither
  is equal to a string.
\<close>

definition keeps_txn :: "(string \<rightharpoonup> platform) \<Rightarrow> string \<Rightarrow> state \<Rightarrow> transaction \<Rightarrow> bool" where
  "keeps_txn pm i s t =
     ((case pm (t_platform t) of None \<Rightarrow> True | Some q \<Rightarrow> p_id q \<noteq> i) \<and>
      (case find (\<lambda>p. p_id p = i) (platforms s) of
         None \<Rightarrow> True | Some p \<Rightarrow> t_platform t \<noteq> p_name p))"

definition removePlatform :: "string \<Rightarrow> state \<Rightarrow> state" where
  "removePlatform i s =
     s\<lparr>platforms := filter (\<lambda>p. p_id p \<noteq> i) (platforms s),
       transactions := filter (keeps_txn (platformMap (platforms s)) i s) (transactions s)\<rparr>"

text \<open>\<^verbatim>\<open>{ id: crypto.randomUUID(), ...txn }\<close>\<close>

definition new_txn :: "string \<Rightarrow> txn_form \<Rightarrow> transaction" where
  "new_txn uuid txn =
     \<lparr>t_id = uuid, t_platform = f_platform txn, t_amount = f_amount txn,
      t_project = f_project txn, t_note = f_note txn, t_date = f_date txn\<rparr>"

definition addTransaction :: "string \<Rightarrow> txn_form \<Rightarrow> state \<Rightarrow> state" where
  "addTransaction uuid txn s = s\<lparr>transactions := new_txn uuid txn # transactions s\<rparr>"

text \<open>
  The \<^verbatim>\<open>onCreate\<close> handler of \<^verbatim>\<open>TransactionDrawer\<close>, the only caller of
  \<^verbatim>\<open>addTransaction\<close>:
  \<^verbatim>\<open>addTransaction(t); const p = state.platforms.find(p=>p.name===t.platform);
  if (p) updatePlatform(p.id, { credits: Number(p.credits) + Number(t.amount) });\<close>
\<close>

definition credits_patch :: "jsnum \<Rightarrow> patch" where
  "credits_patch v =
     \<lparr>u_name = None, u_credits = Some v, u_color = None, u_unit = None, u_account = None,
      u_monthlyAllowance = None\<rparr>"

definition onCreate :: "string \<Rightarrow> txn_form \<Rightarrow> state \<Rightarrow> state" where
  "onCreate uuid t s =
     (let s1 = addTransaction uuid t s
      in case find (\<lambda>p. p_name p = f_platform t) (platforms s) of
           None \<Rightarrow> s1
         | Some p \<Rightarrow>
             updatePlatform (p_id p) (credits_patch (js_add (p_credits p) (f_amount t))) s1)"

subsection \<open>Derived metrics\<close>

text \<open>\<^verbatim>\<open>state.platforms.reduce((a, p) => a + (Number(p.credits) || 0), 0)\<close>\<close>

definition totalCredits :: "state \<Rightarrow> jsnum" where
  "totalCredits s = foldl (\<lambda>a p. js_add a (or_zero (p_credits p))) (Fin 0) (platforms s)"

text \<open>
  \<^verbatim>\<open>last30\<close>. The clock \<^verbatim>\<open>Date.now()\<close> is the argument \<open>now\<close>, in milliseconds;
  \<open>parseDate d\<close> is the time value of \<^verbatim>\<open>new Date(d)\<close>, \<open>None\<close> for an invalid date,
  whose comparison with the cut-off is false.
\<close>

definition cut :: "int \<Rightarrow> int" where
  "cut now = now - 30 * 24 * 3600 * 1000"

definition last30 :: "(string \<Rightarrow> int option) \<Rightarrow> int \<Rightarrow> transaction list \<Rightarrow> transaction list" where
  "last30 parseDate now txns =
     filter (\<lambda>t. case parseDate (t_date t) of None \<Rightarrow> False | Some ms \<Rightarrow> ms \<ge> cut now) txns"

text \<open>
  \<^verbatim>\<open>+(x).toFixed(2)\<close>. \<^verbatim>\<open>toFixed\<close> prints \<^verbatim>\<open>NaN\<close>, an infinity and a magnitude of
  \<open>10\<^sup>2\<^sup>1\<close> or more as \<^verbatim>\<open>String\<close> does, and the unary plus reads the number back.
  Otherwise the sign is split off, of the integers \<open>n\<close> with \<open>n / 100\<close> nearest to the exact
  magnitude the larger one is taken and printed with two decimals, and the unary plus
  reads that decimal as the nearest binary64 value.
\<close>

fun toFixed2 :: "jsnum \<Rightarrow> jsnum" where
  "toFixed2 (Fin x) =
     (if 10 ^ 21 \<le> \<bar>x\<bar> then Fin x
      else if x < 0 then round64 (- (of_int \<lfloor>(- x) * 100 + 1 / 2\<rfloor> / 100))
      else round64 (of_int \<lfloor>x * 100 + 1 / 2\<rfloor> / 100))"
| "toFixed2 n = n"

definition dailyBurn :: "transaction list \<Rightarrow> jsnum" where
  "dailyBurn l30 =
     (if l30 = [] then Fin 0
      else let spent = foldl (\<lambda>a t. js_add a (js_abs (t_amount t))) (Fin 0)
                         (filter (\<lambda>t. js_less (t_amount t) (Fin 0)) l30)
           in toFixed2 (js_div spent (Fin 30)))"


subsection \<open>The filtered transaction view\<close>

text \<open>
  \<^verbatim>\<open>a.localeCompare(b)\<close> on the date strings the application stores
  (\<^verbatim>\<open>YYYY-MM-DD\<close>: digits and hyphens at fixed positions), where the collation order is
  the lexicographic order of the characters.
\<close>

definition localeCompare :: "string \<Rightarrow> string \<Rightarrow> int" where
  "localeCompare a b = (if a < b then - 1 else if a = b then 0 else 1)"

text \<open>
  \<^verbatim>\<open>Array.prototype.sort(cmp)\<close> is a stable sort: elements that compare equal keep
  their order. It is modelled by insertion from the right, each element going in front
  of the first one it does not have to follow.
\<close>

fun insert_cmp :: "('a \<Rightarrow> 'a \<Rightarrow> int) \<Rightarrow> 'a \<Rightarrow> 'a list \<Rightarrow> 'a list" where
  "insert_cmp cmp x [] = [x]"
| "insert_cmp cmp x (y # ys) =
     (if cmp x y \<le> 0 then x # y # ys else y # insert_cmp cmp x ys)"

definition sort_cmp :: "('a \<Rightarrow> 'a \<Rightarrow> int) \<Rightarrow> 'a list \<Rightarrow> 'a list" where
  "sort_cmp cmp xs = foldr (insert_cmp cmp) xs []"

definition matches :: "string \<Rightarrow> transaction \<Rightarrow> bool" where
  "matches flt t = (if flt = ''All'' then True else t_platform t = flt)"

definition filteredTxns :: "string \<Rightarrow> transaction list \<Rightarrow> transaction list" where
  "filteredTxns flt txns =
     sort_cmp (\<lambda>a b. localeCompare (t_date b) (t_date a)) (filter (matches flt) txns)"

subsection \<open>CSV export\<close>

text \<open>
  A cell is a string or a number; \<^verbatim>\<open>String(v)\<close> leaves a string as it is and prints a
  number, by the function \<open>num_str\<close> given as an argument.
\<close>

datatype cell = S string | N jsnum

definition dquote :: char where
  "dquote = CHR 0x22"

definition newline :: char where
  "newline = CHR 0x0A"

definition comma :: char where
  "comma = CHR 0x2C"

fun String :: "(jsnum \<Rightarrow> string) \<Rightarrow> cell \<Rightarrow> string" where
  "String num_str (S v) = v"
| "String num_str (N n) = num_str n"

text \<open>\<^verbatim>\<open>v.replaceAll('"', '""')\<close>\<close>

definition replaceAll_quote :: "string \<Rightarrow> string" where
  "replaceAll_quote v = concat (map (\<lambda>c. if c = dquote then [dquote, dquote] else [c]) v)"

definition quote_cell :: "(jsnum \<Rightarrow> string) \<Rightarrow> cell \<Rightarrow> string" where
  "quote_cell num_str v = [dquote] @ replaceAll_quote (String num_str v) @ [dquote]"

text \<open>\<^verbatim>\<open>Array.prototype.join(sep)\<close> on an array of strings.\<close>

fun join :: "string \<Rightarrow> string list \<Rightarrow> string" where
  "join sep [] = []"
| "join sep [x] = x"
| "join sep (x # y # ys) = x @ sep @ join sep (y # ys)"

definition make_row :: "(jsnum \<Rightarrow> string) \<Rightarrow> cell list \<Rightarrow> string" where
  "make_row num_str r = join [comma] (map (quote_cell num_str) r)"

definition make :: "(jsnum \<Rightarrow> string) \<Rightarrow> cell list list \<Rightarrow> string" where
  "make num_str rows = join [newline] (map (make_row num_str) rows)"

definition headers1 :: "cell list" where
  "headers1 = [S ''Platform'', S ''Credits'', S ''Unit'', S ''MonthlyAllowance'', S ''Account'']"

definition rows1 :: "state \<Rightarrow> cell list list" where
  "rows1 s =
     map (\<lambda>p. [S (p_name p), N (p_credits p), S (p_unit p), N (p_monthlyAllowance p),
               S (p_account p)]) (platforms s)"

definition headers2 :: "cell list" where
  "headers2 = [S ''Date'', S ''Platform'', S ''Amount'', S ''Project'', S ''Note'']"

definition rows2 :: "state \<Rightarrow> cell list list" where
  "rows2 s =
     map (\<lambda>t. [S (t_date t), S (t_platform t), N (t_amount t), S (or_str (t_project t) []),
               S (or_str (t_note t) [])]) (transactions s)"

text \<open>The \<^verbatim>\<open>content\<close> of \<^verbatim>\<open>exportCSV\<close>, the text of the downloaded file.\<close>

definition exportCSV :: "(jsnum \<Rightarrow> string) \<Rightarrow> state \<Rightarrow> string" where
  "exportCSV num_str s =
     (let part1 = make num_str (headers1 # rows1 s);
          part2 = make num_str (headers2 # rows2 s)
      in ''Balances'' @ [newline] @ part1 @ [newline, newline] @ ''Transactions'' @ [newline]
         @ part2)"

text \<open>
  \<^verbatim>\<open>out.split('\n')\<close> of \<^verbatim>\<open>__runDevTests\<close>, and the table the test serialises.
\<close>

fun split :: "char \<Rightarrow> string \<Rightarrow> string list" where
  "split c [] = [[]]"
| "split c (x # xs) =
     (if x = c then [] # split c xs
      else (case split c xs of [] \<Rightarrow> [[x]] | r # rs \<Rightarrow> (x # r) # rs))"

definition dev_rows :: "cell list list" where
  "dev_rows = [[S ''A,1'', S [CHR ''B'', dquote, CHR ''2''], S [CHR ''C'', newline, CHR ''3'']],
               [S ''x'', S ''y'', S ''z'']]"

text \<open>
  What a reader of the file takes as its rows: the text is cut at the line feeds that
  are outside quotes, a quote character switching between outside and inside. Inside a
  quoted field a doubled quote stands for one quote character.
\<close>

fun records_from :: "bool \<Rightarrow> string \<Rightarrow> string \<Rightarrow> string list" where
  "records_from inq cur [] = [cur]"
| "records_from inq cur (c # cs) =
     (if c = dquote then records_from (\<not> inq) (cur @ [c]) cs
      else if c = newline \<and> \<not> inq then cur # records_from False [] cs
      else records_from inq (cur @ [c]) cs)"

definition csv_records :: "string \<Rightarrow> string list" where
  "csv_records text = records_from False [] text"

fun undouble :: "string \<Rightarrow> string" where
  "undouble (a # b # cs) =
     (if a = dquote \<and> b = dquote then dquote # undouble cs else a # undouble (b # cs))"
| "undouble cs = cs"

subsection \<open>Loading the stored state\<close>

text \<open>
  \<^verbatim>\<open>demoTransactions\<close> and \<^verbatim>\<open>initialState\<close>. \<open>uuid k\<close> is the result of the \<open>k\<close>-th call
  of \<^verbatim>\<open>crypto.randomUUID()\<close> while the module is loaded, and \<open>days n\<close> is
  \<^verbatim>\<open>new Date(now - n * 24 * 3600 * 1000).toISOString().slice(0, 10)\<close>.
\<close>

definition demo_txn ::
  "string \<Rightarrow> string \<Rightarrow> rat \<Rightarrow> string \<Rightarrow> string \<Rightarrow> string \<Rightarrow> transaction" where
  "demo_txn i pf amount project note date =
     \<lparr>t_id = i, t_platform = pf, t_amount = Fin amount, t_project = Some project,
      t_note = Some note, t_date = date\<rparr>"

definition demoTransactions :: "(nat \<Rightarrow> string) \<Rightarrow> (nat \<Rightarrow> string) \<Rightarrow> transaction list" where
  "demoTransactions uuid days =
     [demo_txn (uuid 6) ''Higgsfield'' (- 120) ''Bug City trailer'' ''4 x 30s gens'' (days 1),
      demo_txn (uuid 7) ''Suno'' (- 40) ''NeonShore EP'' ''2 songs v4'' (days 2),
      demo_txn (uuid 8) ''Runway'' (- 60) ''FCG Reel'' ''Gen-3 alpha shots'' (days 4),
      demo_txn (uuid 9) ''Google Flow'' (- 30) ''Pitch deck'' ''text-to-video'' (days 6),
      demo_txn (uuid 10) ''Pika'' (- 25) ''Meme pack'' ''shorts'' (days 9),
      demo_txn (uuid 11) ''Luma'' (- 50) ''Desert MV'' ''lighting tests'' (days 12)]"

definition initialState :: "(nat \<Rightarrow> string) \<Rightarrow> (nat \<Rightarrow> string) \<Rightarrow> state" where
  "initialState uuid days =
     \<lparr>platforms =
        map (\<lambda>(k, p). \<lparr>p_id = uuid k, p_name = fst p, p_credits = Fin 1000, p_color = snd p,
                       p_unit = ''credits'', p_account = ''main'',
                       p_monthlyAllowance = Fin 0\<rparr>)
          (enumerate 0 PLATFORM_PRESETS),
      transactions = demoTransactions uuid days\<rparr>"

text \<open>
  \<^verbatim>\<open>localStorage.getItem\<close> throws, returns \<^verbatim>\<open>null\<close> or returns the stored string.
  \<^verbatim>\<open>JSON.parse\<close> is the argument \<open>parse\<close>, \<open>None\<close> when it throws. Of the value it
  returns the code reads two properties: reading them throws on \<^verbatim>\<open>null\<close>, gives
  \<^verbatim>\<open>undefined\<close> for both on any other value that is not an object with these keys, and
  on an object each of them is absent, \<^verbatim>\<open>null\<close> or a value.
\<close>

datatype getItem = Throws | Null | Item string

datatype 'a property = Undefined | NullValue | Value 'a

datatype parsed =
  ParsedNull
  | ParsedOther
  | ParsedObject "platform list property" "transaction list property"

text \<open>\<^verbatim>\<open>x ?? d\<close>\<close>

definition nullish :: "'a property \<Rightarrow> 'a \<Rightarrow> 'a" where
  "nullish x d = (case x of Value v \<Rightarrow> v | _ \<Rightarrow> d)"

definition loadState :: "state \<Rightarrow> (string \<Rightarrow> parsed option) \<Rightarrow> getItem \<Rightarrow> state" where
  "loadState initial parse raw =
     (case raw of
        Throws \<Rightarrow> initial
      | Null \<Rightarrow> initial
      | Item r \<Rightarrow>
          if r = [] then initial
          else (case parse r of
                  None \<Rightarrow> initial
                | Some ParsedNull \<Rightarrow> initial
                | Some ParsedOther \<Rightarrow>
                    \<lparr>platforms = platforms initial, transactions = transactions initial\<rparr>
                | Some (ParsedObject ps ts) \<Rightarrow>
                    \<lparr>platforms = nullish ps (platforms initial),
                     transactions = nullish ts (transactions initial)\<rparr>))"

subsection \<open>Notions used in the statements\<close>

text \<open>Some platform has the name \<open>n\<close>; some platform has it up to the case of letters.\<close>

definition has_name :: "state \<Rightarrow> string \<Rightarrow> bool" where
  "has_name s n = list_ex (\<lambda>p. p_name p = n) (platforms s)"

definition has_name_ci :: "state \<Rightarrow> string \<Rightarrow> bool" where
  "has_name_ci s n = list_ex (\<lambda>p. toLowerCase (p_name p) = toLowerCase n) (platforms s)"

text \<open>
  The date of a transaction is on or after the clock minus 30 days (2592000000 ms), and
  the amount spent in that window: the sum of the magnitudes of the negative amounts,
  added up from zero in the order of the list.
\<close>

definition on_or_after_cut :: "(string \<Rightarrow> int option) \<Rightarrow> int \<Rightarrow> transaction \<Rightarrow> bool" where
  "on_or_after_cut parseDate now t =
     (case parseDate (t_date t) of None \<Rightarrow> False | Some ms \<Rightarrow> now - 2592000000 \<le> ms)"

definition spent30 :: "(string \<Rightarrow> int option) \<Rightarrow> int \<Rightarrow> transaction list \<Rightarrow> jsnum" where
  "spent30 parseDate now txns =
     foldl js_add (Fin 0)
       (map (\<lambda>t. js_abs (t_amount t))
          (filter (\<lambda>t. js_less (t_amount t) (Fin 0) \<and> on_or_after_cut parseDate now t) txns))"

text \<open>A number that is not below zero (\<^verbatim>\<open>NaN\<close> counts as such).\<close>

definition js_nonneg :: "jsnum \<Rightarrow> bool" where
  "js_nonneg n = (case n of Fin x \<Rightarrow> 0 \<le> x | NInf \<Rightarrow> False | _ \<Rightarrow> True)"

subsection \<open>Example data\<close>

definition ex_platform :: "string \<Rightarrow> string \<Rightarrow> rat \<Rightarrow> platform" where
  "ex_platform i n c =
     \<lparr>p_id = i, p_name = n, p_credits = Fin c, p_color = ''#64748b'', p_unit = ''credits'',
      p_account = ''main'', p_monthlyAllowance = Fin 0\<rparr>"

definition ex_custom :: "string \<Rightarrow> rat option \<Rightarrow> custom_form" where
  "ex_custom n c =
     \<lparr>c_name = Some n, c_credits = (case c of None \<Rightarrow> NaN | Some v \<Rightarrow> Fin v),
      c_color = None, c_unit = None, c_account = None, c_monthlyAllowance = NaN\<rparr>"

definition ex_txn :: "string \<Rightarrow> string \<Rightarrow> rat \<Rightarrow> string \<Rightarrow> transaction" where
  "ex_txn i pf a d =
     \<lparr>t_id = i, t_platform = pf, t_amount = Fin a, t_project = None, t_note = None,
      t_date = d\<rparr>"

definition ex_form :: "string \<Rightarrow> rat \<Rightarrow> txn_form" where
  "ex_form pf a =
     \<lparr>f_platform = pf, f_amount = Fin a, f_project = None, f_note = None,
      f_date = ''2025-11-10''\<rparr>"

definition ex_empty :: state where
  "ex_empty = \<lparr>platforms = [], transactions = []\<rparr>"

text \<open>The state after creating the custom platform \<^verbatim>\<open>suno\<close> in the empty store.\<close>

definition ex_suno_lower :: state where
  "ex_suno_lower = \<lparr>platforms = [ex_platform ''u1'' ''suno'' 0], transactions = []\<rparr>"

definition ex_two :: state where
  "ex_two =
     \<lparr>platforms = [ex_platform ''p1'' ''Suno'' 1000, ex_platform ''p2'' ''Pika'' 500],
      transactions = [ex_txn ''t1'' ''Pika'' (- 25) ''2025-11-02'',
                      ex_txn ''t0'' ''Suno'' (- 40) ''2025-11-01'']\<rparr>"

text \<open>
  A clock reading of 2025-11-10T00:00Z is 1762732800000; the dates below are one day, two
  days and 31 days before it.
\<close>

definition ex_parseDate :: "string \<Rightarrow> int option" where
  "ex_parseDate d =
     map_of [(''2025-11-09'', 1762646400000), (''2025-11-08'', 1762560000000),
             (''2025-10-10'', 1760054400000)] d"

definition ex_ledger :: "transaction list" where
  "ex_ledger =
     [ex_txn ''t3'' ''Higgsfield'' (- 120) ''2025-11-09'',
      ex_txn ''t2'' ''Suno'' (- 40) ''2025-11-08'',
      ex_txn ''t1'' ''Suno'' (- 75) ''2025-10-10'',
      ex_txn ''t0'' ''Suno'' (- 5) ''not a date'']"

text \<open>\<^verbatim>\<open>JSON.parse\<close> on three stored texts; every other text is taken as malformed.\<close>

definition ex_parse :: "string \<Rightarrow> parsed option" where
  "ex_parse r =
     (if r = ''{'' @ [dquote] @ ''platforms'' @ [dquote] @ '':[]}''
      then Some (ParsedObject (Value []) Undefined)
      else if r = ''{'' @ [dquote] @ ''transactions'' @ [dquote] @ '':[]}''
      then Some (ParsedObject Undefined (Value []))
      else if r = ''null'' then Some ParsedNull
      else None)"

section \<open>Properties\<close>

subsection \<open>Numbers\<close>

lemma pow2_pos: "0 < pow2 k"
  by (simp add: pow2_def)

lemma round_half_even_nonneg: "0 \<le> y \<Longrightarrow> 0 \<le> round_half_even y"
  by (auto simp: round_half_even_def Let_def)

lemma round64_nonneg:
  assumes "0 \<le> x"
  shows "js_nonneg (round64 x)"
proof (cases "x = 0")
  case True
  then show ?thesis
    by (simp add: round64_def js_nonneg_def)
next
  case False
  have "0 \<le> of_int (round_half_even (\<bar>x\<bar> / pow2 k)) * pow2 k" for k
    by (intro mult_nonneg_nonneg) (simp_all add: round_half_even_nonneg pow2_pos less_imp_le)
  then show ?thesis
    using assms False by (simp add: round64_def Let_def js_nonneg_def)
qed

lemma js_add_nonneg: "js_nonneg a \<Longrightarrow> js_nonneg b \<Longrightarrow> js_nonneg (js_add a b)"
  by (cases a; cases b)
    (auto simp: js_nonneg_def[of "Fin _"] js_nonneg_def[of NInf] js_nonneg_def[of PInf]
       js_nonneg_def[of NaN] intro: round64_nonneg)

lemma js_abs_nonneg: "js_nonneg (js_abs a)"
  by (cases a) (simp_all add: js_nonneg_def)

lemma foldl_js_add_nonneg:
  "js_nonneg z \<Longrightarrow> (\<And>x. x \<in> set xs \<Longrightarrow> js_nonneg x) \<Longrightarrow> js_nonneg (foldl js_add z xs)"
  by (induction xs arbitrary: z) (simp_all add: js_add_nonneg)

lemma spent30_nonneg: "js_nonneg (spent30 parseDate now txns)"
  unfolding spent30_def
  by (rule foldl_js_add_nonneg) (auto simp: js_abs_nonneg, simp add: js_nonneg_def)

lemma js_div_30_nonneg: "js_nonneg a \<Longrightarrow> js_nonneg (js_div a (Fin 30))"
  by (cases a)
    (auto simp: js_nonneg_def[of "Fin _"] js_nonneg_def[of NInf] js_nonneg_def[of PInf]
       js_nonneg_def[of NaN] intro: round64_nonneg)

lemma pow2_powi: "pow2 k = 2 powi k"
  by (simp add: pow2_def power_int_def field_simps)

lemma pow2_add: "pow2 (j + k) = pow2 j * pow2 k"
  by (simp add: pow2_powi power_int_add)

lemma pow2_mono: "j \<le> k \<Longrightarrow> pow2 j \<le> pow2 k"
  by (simp add: pow2_powi power_int_increasing)

lemma exponent_bounds:
  assumes "0 < x"
  shows "pow2 (exponent x) \<le> x \<and> x < pow2 (exponent x + 1)"
proof (cases "1 \<le> x")
  case True
  define n where "n = \<lfloor>x\<rfloor>"
  have n: "0 < n" using True by (simp add: n_def)
  from bitlen_bounds[OF n] have b: "2 ^ nat (bitlen n - 1) \<le> n" "n < 2 ^ nat (bitlen n)"
    by auto
  have k: "1 \<le> bitlen n" using n bitlen_eq_zero_iff[of n] bitlen_nonneg[of n] by linarith
  have "(2::rat) ^ nat (bitlen n - 1) = of_int (2 ^ nat (bitlen n - 1))" by simp
  also have "\<dots> \<le> of_int n" using b(1) by (simp only: of_int_le_iff)
  also have "\<dots> \<le> x" by (simp add: n_def)
  finally have lo: "pow2 (bitlen n - 1) \<le> x" using k by (simp add: pow2_def)
  have "n + 1 \<le> 2 ^ nat (bitlen n)" using b(2) by simp
  then have "(of_int (n + 1)::rat) \<le> of_int (2 ^ nat (bitlen n))" by (simp only: of_int_le_iff)
  moreover have "x < of_int (n + 1)" unfolding n_def using floor_correct[of x] by blast
  ultimately have hi: "x < pow2 (bitlen n)" using k by (simp add: pow2_def)
  show ?thesis using lo hi True by (simp add: exponent_def n_def)
next
  case False
  define c where "c = \<lceil>1 / x\<rceil>"
  define m where "m = c - 1"
  have y: "1 < 1 / x" using assms False by simp
  have m: "0 < m" using y by (simp add: m_def c_def less_ceiling_iff) 
  from bitlen_bounds[OF m] have b: "2 ^ nat (bitlen m - 1) \<le> m" "m < 2 ^ nat (bitlen m)"
    by auto
  have k: "1 \<le> bitlen m" using m bitlen_eq_zero_iff[of m] bitlen_nonneg[of m] by linarith
  have "1 / x \<le> of_int c" by (simp add: c_def)
  also have "(of_int c::rat) \<le> of_int (2 ^ nat (bitlen m))" using b(2) unfolding m_def by (simp only: of_int_le_iff)
  finally have up: "1 / x \<le> 2 ^ nat (bitlen m)" by simp
  have "(of_int (2 ^ nat (bitlen m - 1))::rat) \<le> of_int m" using b(1) by (simp only: of_int_le_iff)
  also have "(of_int m::rat) < 1 / x" unfolding m_def c_def using ceiling_correct[of "1 / x"] by simp
  finally have dn: "2 ^ nat (bitlen m - 1) < 1 / x" by simp
  have lo: "pow2 (- bitlen m) \<le> x"
    using up assms k by (simp add: pow2_def field_simps)
  have hi: "x < pow2 (- bitlen m + 1)"
  proof (cases "bitlen m = 1")
    case True
    then show ?thesis using False by (simp add: pow2_def)
  next
    case F: False
    then have "nat (bitlen m - 1) = nat (- (- bitlen m + 1))" "- bitlen m + 1 < 0" using k by auto
    then show ?thesis using dn assms by (simp add: pow2_def field_simps)
  qed
  show ?thesis using lo hi False by (simp add: exponent_def c_def m_def)
qed

lemma round_half_even_of_int: "round_half_even (of_int k) = k"
  by (simp add: round_half_even_def)

lemma round_half_even_le:
  assumes "y \<le> of_int k"
  shows "round_half_even y \<le> k"
proof -
  have f: "\<lfloor>y\<rfloor> \<le> k" using assms by (simp add: floor_le_iff) 
  show ?thesis
  proof (cases "y = of_int \<lfloor>y\<rfloor>")
    case True
    then show ?thesis using f by (simp add: round_half_even_def Let_def)
  next
    case False
    then have "of_int \<lfloor>y\<rfloor> < y" using of_int_floor_le[of y] by linarith
    then have "of_int \<lfloor>y\<rfloor> < (of_int k :: rat)" using assms by linarith
    then have "\<lfloor>y\<rfloor> + 1 \<le> k" by simp
    then show ?thesis by (auto simp: round_half_even_def Let_def)
  qed
qed

text \<open>Below exponent 1023 nothing rounds to \<open>pow2 1024\<close>: the shortcut in \<open>round64\<close> is sound.\<close>

lemma round64_plain:
  "round64 x =
     (if x = 0 then Fin 0
      else
        let a = \<bar>x\<bar>;
            e = max (exponent a) (- 1022);
            q = pow2 (e - 52);
            m = of_int (round_half_even (a / q)) * q
        in if pow2 1024 \<le> m then (if x < 0 then NInf else PInf)
           else Fin (if x < 0 then - m else m))"
proof (cases "x = 0")
  case True
  then show ?thesis by (simp add: round64_def)
next
  case False
  define a where "a = \<bar>x\<bar>"
  define e where "e = max (exponent a) (- 1022)"
  define q where "q = pow2 (e - 52)"
  define m where "m = of_int (round_half_even (a / q)) * q"
  have a: "0 < a" using False by (simp add: a_def)
  have q: "0 < q" by (simp add: q_def pow2_pos)
  have "m < pow2 1024" if "e < 1023"
  proof -
    have "a < pow2 (exponent a + 1)" using exponent_bounds[OF a] by simp
    also have "\<dots> \<le> pow2 (e + 1)" by (rule pow2_mono) (simp add: e_def)
    finally have "a < pow2 (e + 1)" .
    moreover have "e + 1 = 53 + (e - 52)" by simp
    then have "pow2 (e + 1) = pow2 53 * q"
      unfolding q_def by (simp only: pow2_add)
    ultimately have "a / q < pow2 53" using q by (simp add: field_simps)
    then have "a / q \<le> of_int (2 ^ 53)" by (simp add: pow2_def)
    then have "round_half_even (a / q) \<le> 2 ^ 53" by (rule round_half_even_le)
    then have "(of_int (round_half_even (a / q)) :: rat) \<le> of_int (2 ^ 53)"
      by (simp only: of_int_le_iff)
    then have "m \<le> of_int (2 ^ 53) * q" unfolding m_def using q by (simp only: mult_le_cancel_right_pos)
    also have "\<dots> = pow2 (e + 1)" using \<open>pow2 (e + 1) = pow2 53 * q\<close> by (simp add: pow2_def)
    also have "\<dots> \<le> pow2 1023" by (rule pow2_mono) (use that in simp)
    also have "\<dots> < pow2 1024" by (simp add: pow2_powi)
    finally show ?thesis .
  qed
  then show ?thesis
    using False by (auto simp: round64_def Let_def a_def e_def q_def m_def)
qed

lemma round64_pos_int:
  assumes "0 < n" "n \<le> 2 ^ 53"
  shows "round64 (of_int n) = Fin (of_int n)"
proof -
  define e where "e = bitlen n - 1"
  have ex: "exponent (of_int n) = e" using assms(1) by (simp add: exponent_def e_def)
  from bitlen_bounds[OF assms(1)] have lo: "2 ^ nat e \<le> n" by (simp add: e_def)
  have e0: "0 \<le> e" using assms(1) bitlen_eq_zero_iff[of n] bitlen_nonneg[of n] by (simp add: e_def)
  have le: "(2::int) ^ nat e \<le> 2 ^ 53" using lo assms(2) by linarith
  have "nat e \<le> 53"
  proof (rule power_le_imp_le_exp)
    show "(1::int) < 2" by simp
    show "(2::int) ^ nat e \<le> 2 ^ 53" by (fact le)
  qed
  then have e53: "e \<le> 53" by simp
  have mx: "max e (- 1022) = e" using e0 by simp
  have "of_int (round_half_even (of_int n / pow2 (e - 52))) * pow2 (e - 52) = (of_int n :: rat)"
  proof (cases "e \<le> 52")
    case True
    define j where "j = nat (52 - e)"
    have p: "pow2 (e - 52) = 1 / 2 ^ j"
      using True by (cases "e = 52") (simp_all add: pow2_def j_def)
    have "(of_int n :: rat) / (1 / 2 ^ j) = of_int (n * 2 ^ j)" by simp
    then have "round_half_even (of_int n / (1 / 2 ^ j)) = n * 2 ^ j"
      by (simp only: round_half_even_of_int)
    then have "of_int (round_half_even (of_int n / (1 / 2 ^ j))) * (1 / 2 ^ j) =
               (of_int (n * 2 ^ j) :: rat) * (1 / 2 ^ j)" by (simp only:)
    also have "\<dots> = of_int n" by simp
    finally show ?thesis unfolding p .
  next
    case False
    then have e: "e = 53" using e53 by simp
    then have n: "n = 2 ^ 53" using lo assms(2) by simp
    have "round_half_even 4503599627370496 = 4503599627370496"
      using round_half_even_of_int[of 4503599627370496] by simp
    then show ?thesis using e by (simp add: n pow2_def)
  qed
  then show ?thesis
    using assms(1) e53 by (simp add: round64_def Let_def ex mx)
qed

lemma round64_int:
  assumes "\<bar>n\<bar> \<le> 2 ^ 53"
  shows "round64 (of_int n) = Fin (of_int n)"
proof -
  consider "n = 0" | "0 < n" | "n < 0" by linarith
  then show ?thesis
  proof cases
    case 1
    then show ?thesis by (simp add: round64_def)
  next
    case 2
    then show ?thesis using assms round64_pos_int by simp
  next
    case 3
    then have p: "0 < - n" "- n \<le> 2 ^ 53" using assms by simp_all
    have "round64 (of_int (- n)) = Fin (of_int (- n))" by (rule round64_pos_int[OF p])
    then show ?thesis using 3 by (simp add: round64_def Let_def split: if_splits)
  qed
qed

lemma js_add_int:
  "\<bar>a + b\<bar> \<le> 2 ^ 53 \<Longrightarrow> js_add (Fin (of_int a)) (Fin (of_int b)) = Fin (of_int (a + b))"
  using round64_int[of "a + b"] by simp

subsection \<open>Auxiliary facts\<close>

lemma find_Some_mem: "find P xs = Some x \<Longrightarrow> x \<in> set xs \<and> P x"
  by (induction xs) (auto split: if_splits)

lemma distinct_id_eq:
  "distinct (map p_id ps) \<Longrightarrow> p \<in> set ps \<Longrightarrow> q \<in> set ps \<Longrightarrow> p_id q = p_id p \<Longrightarrow> q = p"
  by (meson distinct_map inj_on_def)

lemma merge_credits_patch: "merge_patch q (credits_patch v) = q\<lparr>p_credits := v\<rparr>"
  by (simp add: merge_patch_def credits_patch_def)

lemma merge_patch_id: "p_id (merge_patch p u) = p_id p"
  by (simp add: merge_patch_def)

lemma platformMap_SomeD: "platformMap ps n = Some q \<Longrightarrow> q \<in> set ps \<and> p_name q = n"
  unfolding platformMap_def by (auto dest!: map_of_SomeD)

lemma find_map_same:
  "(\<And>x. P (f x) = P x) \<Longrightarrow> find P (map f xs) = map_option f (find P xs)"
  by (induction xs) simp_all

lemma update_keeps_ids: "p_id \<circ> (\<lambda>p. if p_id p = j then merge_patch p v else p) = p_id"
  by (rule ext) (simp add: merge_patch_id)

text \<open>
  Platform ids stay pairwise distinct: creation appends a platform under a fresh id, an
  update keeps every id, and removal only drops platforms.
\<close>

lemma ids_stay_distinct:
  assumes "distinct (map p_id (platforms s))" and "uuid \<notin> p_id ` set (platforms s)"
  shows "distinct (map p_id (platforms (state_after s (addPlatform uuid n s))))"
    and "distinct (map p_id (platforms (state_after s (addCustomPlatform uuid c s))))"
    and "distinct (map p_id (platforms (updatePlatform i u s)))"
    and "distinct (map p_id (platforms (removePlatform i s)))"
    and "distinct (map p_id (platforms (onCreate uuid t s)))"
proof -
  show "distinct (map p_id (platforms (state_after s (addPlatform uuid n s))))"
    using assms by (simp add: addPlatform_def state_after_def Let_def)
  show "distinct (map p_id (platforms (state_after s (addCustomPlatform uuid c s))))"
    using assms by (simp add: addCustomPlatform_def state_after_def Let_def)
  show "distinct (map p_id (platforms (updatePlatform i u s)))"
    using assms(1) by (simp add: updatePlatform_def update_keeps_ids)
  show "distinct (map p_id (platforms (removePlatform i s)))"
    using assms(1) by (simp add: removePlatform_def distinct_map_filter)
  show "distinct (map p_id (platforms (onCreate uuid t s)))"
    using assms(1)
    by (simp add: onCreate_def addTransaction_def updatePlatform_def update_keeps_ids Let_def
        split: option.split)
qed

subsection \<open>Recording a transaction\<close>

text \<open>
  C10. \<^verbatim>\<open>addTransaction\<close> by itself changes only the transaction collection: the new
  transaction is put in front, and the platform collection after the call is the one
  before it, whatever the state and the transaction.
\<close>

theorem addTransaction_frame:
  "platforms (addTransaction uuid txn s) = platforms s \<and>
   transactions (addTransaction uuid txn s) = new_txn uuid txn # transactions s"
  by (simp add: addTransaction_def)

text \<open>
  C1, as amended. \<^verbatim>\<open>addTransaction\<close> does not touch any balance; the balance is adjusted
  by the handler that calls it. For every state and every form \<open>t\<close>, the \<^verbatim>\<open>onCreate\<close>
  handler records the transaction under the new id in front of the collection. When no
  platform is named \<open>f_platform t\<close>, the platforms are unchanged. When \<open>p\<close> is the first
  platform with that name, it is still the first with that name afterwards and its
  credits are the JavaScript sum of its credits before and the amount, and every platform
  with another id is unchanged. The JavaScript sum is the binary64 value nearest the exact
  sum; for whole numbers it is the exact sum as long as that is at most \<open>2\<^sup>5\<^sup>3\<close> in
  magnitude.
\<close>

theorem onCreate_adjusts:
  "transactions (onCreate uuid t s) = new_txn uuid t # transactions s \<and>
   (find (\<lambda>p. p_name p = f_platform t) (platforms s) = None \<longrightarrow>
      platforms (onCreate uuid t s) = platforms s) \<and>
   (\<forall>p. find (\<lambda>p. p_name p = f_platform t) (platforms s) = Some p \<longrightarrow>
      platforms (onCreate uuid t s) =
        map (\<lambda>q. if p_id q = p_id p
                  then q\<lparr>p_credits := js_add (p_credits p) (f_amount t)\<rparr> else q) (platforms s) \<and>
      find (\<lambda>p. p_name p = f_platform t) (platforms (onCreate uuid t s)) =
        Some (p\<lparr>p_credits := js_add (p_credits p) (f_amount t)\<rparr>)) \<and>
   (\<forall>a b. \<bar>a + b\<bar> \<le> 2 ^ 53 \<longrightarrow>
      js_add (Fin (of_int a)) (Fin (of_int b)) = Fin (of_int (a + b)))"
proof (intro conjI allI impI)
  show "transactions (onCreate uuid t s) = new_txn uuid t # transactions s"
    by (simp add: onCreate_def addTransaction_def updatePlatform_def Let_def split: option.split)
next
  assume "find (\<lambda>p. p_name p = f_platform t) (platforms s) = None"
  then show "platforms (onCreate uuid t s) = platforms s"
    by (simp add: onCreate_def addTransaction_def)
next
  fix p
  assume h: "find (\<lambda>p. p_name p = f_platform t) (platforms s) = Some p"
  let ?f = "\<lambda>q. if p_id q = p_id p
                then q\<lparr>p_credits := js_add (p_credits p) (f_amount t)\<rparr> else q"
  show eq: "platforms (onCreate uuid t s) = map ?f (platforms s)"
    using h by (simp add: onCreate_def addTransaction_def updatePlatform_def merge_credits_patch)
  have "find (\<lambda>p. p_name p = f_platform t) (map ?f (platforms s)) =
        map_option ?f (find (\<lambda>p. p_name p = f_platform t) (platforms s))"
    by (rule find_map_same) simp
  then show "find (\<lambda>p. p_name p = f_platform t) (platforms (onCreate uuid t s)) =
        Some (p\<lparr>p_credits := js_add (p_credits p) (f_amount t)\<rparr>)"
    unfolding eq using h by simp
next
  fix a b :: int
  assume "\<bar>a + b\<bar> \<le> 2 ^ 53"
  then show "js_add (Fin (of_int a)) (Fin (of_int b)) = Fin (of_int (a + b))"
    by (rule js_add_int)
qed

text \<open>
  The handler on a store with the platforms Suno (1000 credits) and Pika (500): a spend
  of 40 on Suno leaves Suno with 960 and Pika with 500; a spend on the unknown name Luma
  changes no platform.
\<close>

theorem onCreate_adjusts_witness:
  "find (\<lambda>p. p_name p = f_platform (ex_form ''Suno'' (- 40))) (platforms ex_two) =
      Some (ex_platform ''p1'' ''Suno'' 1000) \<and>
   \<bar>1000 + (- 40 :: int)\<bar> \<le> 2 ^ 53 \<and>
   platforms (onCreate ''t2'' (ex_form ''Suno'' (- 40)) ex_two) =
     [ex_platform ''p1'' ''Suno'' 960, ex_platform ''p2'' ''Pika'' 500] \<and>
   find (\<lambda>p. p_name p = f_platform (ex_form ''Luma'' (- 40))) (platforms ex_two) = None \<and>
   platforms (onCreate ''t2'' (ex_form ''Luma'' (- 40)) ex_two) = platforms ex_two"
proof -
  have h1: "find (\<lambda>p. p_name p = f_platform (ex_form ''Suno'' (- 40))) (platforms ex_two) =
      Some (ex_platform ''p1'' ''Suno'' 1000)"
    by (simp add: ex_two_def ex_form_def ex_platform_def)
  have h2: "find (\<lambda>p. p_name p = f_platform (ex_form ''Luma'' (- 40))) (platforms ex_two) = None"
    by (simp add: ex_two_def ex_form_def ex_platform_def)
  have h3: "\<bar>1000 + (- 40 :: int)\<bar> \<le> 2 ^ 53"
    by simp
  note a = onCreate_adjusts[of "''t2''" "ex_form ''Suno'' (- 40)" ex_two]
  from a h3 have "js_add (Fin (of_int 1000)) (Fin (of_int (- 40))) = Fin (of_int (1000 + (- 40)))"
    by blast
  then have sum: "round64 960 = Fin 960"
    by simp
  from a h1
  have "platforms (onCreate ''t2'' (ex_form ''Suno'' (- 40)) ex_two) =
        map (\<lambda>q. if p_id q = p_id (ex_platform ''p1'' ''Suno'' 1000)
                  then q\<lparr>p_credits := js_add (p_credits (ex_platform ''p1'' ''Suno'' 1000))
                                         (f_amount (ex_form ''Suno'' (- 40)))\<rparr>
                  else q)
          (platforms ex_two)"
    by blast
  then have c1: "platforms (onCreate ''t2'' (ex_form ''Suno'' (- 40)) ex_two) =
     [ex_platform ''p1'' ''Suno'' 960, ex_platform ''p2'' ''Pika'' 500]"
    by (simp add: ex_two_def ex_form_def ex_platform_def sum)
  from onCreate_adjusts[of "''t2''" "ex_form ''Luma'' (- 40)" ex_two] h2
  have c2: "platforms (onCreate ''t2'' (ex_form ''Luma'' (- 40)) ex_two) = platforms ex_two"
    by blast
  show ?thesis
    using h1 h2 h3 c1 c2 by blast
qed

text \<open>
  C1 as stated fails: Suno is the platform named by the form, and after
  \<^verbatim>\<open>addTransaction\<close> its credits are still 1000, not 1000 plus the amount of - 40.
\<close>

theorem addTransaction_alone_counterexample:
  "find (\<lambda>p. p_name p = f_platform (ex_form ''Suno'' (- 40))) (platforms ex_two) =
     Some (ex_platform ''p1'' ''Suno'' 1000) \<and>
   platforms (addTransaction ''t2'' (ex_form ''Suno'' (- 40)) ex_two) =
     [ex_platform ''p1'' ''Suno'' 1000, ex_platform ''p2'' ''Pika'' 500] \<and>
   p_credits (ex_platform ''p1'' ''Suno'' 1000) \<noteq>
     js_add (p_credits (ex_platform ''p1'' ''Suno'' 1000)) (f_amount (ex_form ''Suno'' (- 40)))"
proof -
  have "js_add (Fin (of_int 1000)) (Fin (of_int (- 40))) = Fin (of_int (1000 + (- 40)))"
    by (rule js_add_int) simp
  then have "round64 960 = Fin 960"
    by simp
  then show ?thesis
    by (simp add: addTransaction_def ex_two_def ex_form_def ex_platform_def)
qed

subsection \<open>Creating platforms\<close>

text \<open>
  C2. Names stay unique up to case only if both creation operations refuse a name that
  some platform already has up to case. \<^verbatim>\<open>addCustomPlatform\<close> does so, but
  \<^verbatim>\<open>addPlatform\<close> compares the names as they are. The empty store with the custom
  platform \<^verbatim>\<open>suno\<close> added is a state in which \<^verbatim>\<open>addCustomPlatform\<close> refuses \<^verbatim>\<open>Suno\<close>,
  while \<^verbatim>\<open>addPlatform\<close> accepts it and the store then holds the two names \<^verbatim>\<open>suno\<close> and
  \<^verbatim>\<open>Suno\<close>.
\<close>

theorem addPlatform_case_variant:
  "state_after ex_empty (addCustomPlatform ''u1'' (ex_custom ''suno'' None) ex_empty) =
     ex_suno_lower \<and>
   toLowerCase ''Suno'' = toLowerCase ''suno'' \<and>
   addCustomPlatform ''u2'' (ex_custom ''Suno'' None) ex_suno_lower =
     Inl (Alert ''A platform with that name already exists.'') \<and>
   map p_name (platforms (state_after ex_suno_lower (addPlatform ''u2'' ''Suno'' ex_suno_lower))) =
     [''suno'', ''Suno'']"
  by code_simp

text \<open>
  What the two creation operations do, each by its own guards. \<^verbatim>\<open>addPlatform\<close> with a
  non-empty name that no platform has, and \<^verbatim>\<open>addCustomPlatform\<close> with a name that is
  non-empty once trimmed and that no platform has up to case, append exactly one
  platform, under the new id and the (trimmed) name, and leave the transactions alone;
  its credits are 0 for \<^verbatim>\<open>addPlatform\<close>, which takes no balance, and the requested
  balance for \<^verbatim>\<open>addCustomPlatform\<close>, 0 when that is absent or not a number. With an
  empty name or a name that a platform has (for \<^verbatim>\<open>addCustomPlatform\<close>: empty once
  trimmed, or had by a platform up to case) the operation is rejected and the state after
  it is the state before.
\<close>

lemma add_platform_outcomes:
  "(name \<noteq> [] \<and> \<not> has_name s name \<longrightarrow>
      (\<exists>p. platforms (state_after s (addPlatform uuid name s)) = platforms s @ [p] \<and>
           p_id p = uuid \<and> p_name p = name \<and> p_credits p = Fin 0) \<and>
      transactions (state_after s (addPlatform uuid name s)) = transactions s) \<and>
   (name = [] \<or> has_name s name \<longrightarrow>
      (\<exists>r. addPlatform uuid name s = Inl r) \<and> state_after s (addPlatform uuid name s) = s) \<and>
   (trim (or_str (c_name c) []) \<noteq> [] \<and> \<not> has_name_ci s (trim (or_str (c_name c) [])) \<longrightarrow>
      (\<exists>p. platforms (state_after s (addCustomPlatform uuid c s)) = platforms s @ [p] \<and>
           p_id p = uuid \<and> p_name p = trim (or_str (c_name c) []) \<and>
           p_credits p = (if c_credits c = NaN then Fin 0 else c_credits c)) \<and>
      transactions (state_after s (addCustomPlatform uuid c s)) = transactions s) \<and>
   (trim (or_str (c_name c) []) = [] \<or> has_name_ci s (trim (or_str (c_name c) [])) \<longrightarrow>
      (\<exists>r. addCustomPlatform uuid c s = Inl r) \<and>
      state_after s (addCustomPlatform uuid c s) = s)"
proof (intro conjI impI)
  assume "name \<noteq> [] \<and> \<not> has_name s name"
  then show "\<exists>p. platforms (state_after s (addPlatform uuid name s)) = platforms s @ [p] \<and>
           p_id p = uuid \<and> p_name p = name \<and> p_credits p = Fin 0"
    and "transactions (state_after s (addPlatform uuid name s)) = transactions s"
    by (simp_all add: addPlatform_def has_name_def state_after_def Let_def)
next
  assume "name = [] \<or> has_name s name"
  then show "\<exists>r. addPlatform uuid name s = Inl r"
    and "state_after s (addPlatform uuid name s) = s"
    by (auto simp: addPlatform_def has_name_def state_after_def Let_def)
next
  assume "trim (or_str (c_name c) []) \<noteq> [] \<and> \<not> has_name_ci s (trim (or_str (c_name c) []))"
  then show "\<exists>p. platforms (state_after s (addCustomPlatform uuid c s)) = platforms s @ [p] \<and>
           p_id p = uuid \<and> p_name p = trim (or_str (c_name c) []) \<and>
           p_credits p = (if c_credits c = NaN then Fin 0 else c_credits c)"
    and "transactions (state_after s (addCustomPlatform uuid c s)) = transactions s"
    by (simp_all add: addCustomPlatform_def has_name_ci_def state_after_def Let_def or_zero_def)
next
  assume "trim (or_str (c_name c) []) = [] \<or> has_name_ci s (trim (or_str (c_name c) []))"
  then show "\<exists>r. addCustomPlatform uuid c s = Inl r"
    and "state_after s (addCustomPlatform uuid c s) = s"
    by (auto simp: addCustomPlatform_def has_name_ci_def state_after_def Let_def)
qed

text \<open>
  On the store with Suno and Pika: the preset Luma and the custom platform Veo3 (typed
  with blanks around it, balance 250) are added; the preset Pika and the custom name PIKA
  are rejected and the store stays as it is.
\<close>

lemma add_platform_outcomes_example:
  "(''Luma'' \<noteq> [] \<and> \<not> has_name ex_two ''Luma'') \<and>
   (\<exists>p. platforms (state_after ex_two (addPlatform ''p3'' ''Luma'' ex_two)) =
          platforms ex_two @ [p] \<and>
        p_id p = ''p3'' \<and> p_name p = ''Luma'' \<and> p_credits p = Fin 0) \<and>
   has_name ex_two ''Pika'' \<and>
   state_after ex_two (addPlatform ''p3'' ''Pika'' ex_two) = ex_two \<and>
   (trim (or_str (c_name (ex_custom '' Veo3 '' (Some 250))) []) \<noteq> [] \<and>
    \<not> has_name_ci ex_two (trim (or_str (c_name (ex_custom '' Veo3 '' (Some 250))) []))) \<and>
   (\<exists>p. platforms (state_after ex_two
             (addCustomPlatform ''p3'' (ex_custom '' Veo3 '' (Some 250)) ex_two)) =
          platforms ex_two @ [p] \<and>
        p_id p = ''p3'' \<and> p_name p = ''Veo3'' \<and> p_credits p = Fin 250) \<and>
   has_name_ci ex_two (trim (or_str (c_name (ex_custom ''PIKA'' None)) [])) \<and>
   state_after ex_two (addCustomPlatform ''p3'' (ex_custom ''PIKA'' None) ex_two) = ex_two"
proof -
  have h1: "''Luma'' \<noteq> [] \<and> \<not> has_name ex_two ''Luma''"
    by code_simp
  have h2: "has_name ex_two ''Pika''"
    by code_simp
  have h3: "trim (or_str (c_name (ex_custom '' Veo3 '' (Some 250))) []) \<noteq> [] \<and>
    \<not> has_name_ci ex_two (trim (or_str (c_name (ex_custom '' Veo3 '' (Some 250))) []))"
    by code_simp
  have h4: "has_name_ci ex_two (trim (or_str (c_name (ex_custom ''PIKA'' None)) []))"
    by code_simp
  have t: "trim (or_str (c_name (ex_custom '' Veo3 '' (Some 250))) []) = ''Veo3''"
    by code_simp
  have c: "c_credits (ex_custom '' Veo3 '' (Some 250)) = Fin 250"
    by (simp add: ex_custom_def)
  note a = add_platform_outcomes[of "''Luma''" ex_two "''p3''" "ex_custom '' Veo3 '' (Some 250)"]
  note b = add_platform_outcomes[of "''Pika''" ex_two "''p3''" "ex_custom ''PIKA'' None"]
  from a h1 have c1: "\<exists>p. platforms (state_after ex_two (addPlatform ''p3'' ''Luma'' ex_two)) =
          platforms ex_two @ [p] \<and>
        p_id p = ''p3'' \<and> p_name p = ''Luma'' \<and> p_credits p = Fin 0"
    by blast
  from b h2 have c2: "state_after ex_two (addPlatform ''p3'' ''Pika'' ex_two) = ex_two"
    by blast
  from a h3 have c3: "\<exists>p. platforms (state_after ex_two
             (addCustomPlatform ''p3'' (ex_custom '' Veo3 '' (Some 250)) ex_two)) =
          platforms ex_two @ [p] \<and>
        p_id p = ''p3'' \<and> p_name p = ''Veo3'' \<and> p_credits p = Fin 250"
    unfolding t c by simp
  from b h4
  have c4: "state_after ex_two (addCustomPlatform ''p3'' (ex_custom ''PIKA'' None) ex_two) = ex_two"
    by blast
  show ?thesis
    using h1 h2 h3 h4 c1 c2 c3 c4 by blast
qed

text \<open>
  C8. A creation under a valid name that no platform has adds exactly one platform with
  the requested credits, and a creation under an empty or duplicate name is rejected and
  leaves the state as it was: so the lemma above has it for \<^verbatim>\<open>addCustomPlatform\<close>, and for
  \<^verbatim>\<open>addPlatform\<close> as long as a duplicate is a platform of exactly that name. Names are
  duplicates up to case, though, and there \<^verbatim>\<open>addPlatform\<close> is not rejected: in the store
  that holds \<^verbatim>\<open>suno\<close>, the name \<^verbatim>\<open>Suno\<close> is a duplicate, and \<^verbatim>\<open>addPlatform\<close> returns a
  new state with two platforms.
\<close>

theorem addPlatform_duplicate_accepted:
  "has_name_ci ex_suno_lower ''Suno'' \<and>
   addPlatform ''u2'' ''Suno'' ex_suno_lower =
     Inr \<lparr>platforms =
            [ex_platform ''u1'' ''suno'' 0,
             \<lparr>p_id = ''u2'', p_name = ''Suno'', p_credits = Fin 0, p_color = ''#60a5fa'',
              p_unit = ''credits'', p_account = ''main'', p_monthlyAllowance = Fin 0\<rparr>],
          transactions = []\<rparr> \<and>
   length (platforms (state_after ex_suno_lower (addPlatform ''u2'' ''Suno'' ex_suno_lower))) =
     length (platforms ex_suno_lower) + 1"
  by code_simp

subsection \<open>Removing a platform\<close>

text \<open>
  C3. In every state with pairwise distinct platform ids, for every id \<open>i\<close> of an
  existing platform \<open>p\<close>, \<^verbatim>\<open>removePlatform\<close> removes the platform \<open>p\<close> and no other, and
  removes the transactions whose platform field is the name of \<open>p\<close> and no other: the
  order and the content of what remains are untouched.
\<close>

theorem removePlatform_exact:
  assumes "distinct (map p_id (platforms s))"
    and "find (\<lambda>p. p_id p = i) (platforms s) = Some p"
  shows "platforms (removePlatform i s) = filter (\<lambda>q. q \<noteq> p) (platforms s) \<and>
         transactions (removePlatform i s) =
           filter (\<lambda>t. t_platform t \<noteq> p_name p) (transactions s)"
proof -
  from assms(2) have mem: "p \<in> set (platforms s)" and pid: "p_id p = i"
    using find_Some_mem by fastforce+
  have only: "q = p" if "q \<in> set (platforms s)" "p_id q = i" for q
    using distinct_id_eq[OF assms(1) mem that(1)] that(2) pid by simp
  have "filter (\<lambda>q. p_id q \<noteq> i) (platforms s) = filter (\<lambda>q. q \<noteq> p) (platforms s)"
    by (rule filter_cong[OF refl]) (use only pid in auto)
  moreover
  have "keeps_txn (platformMap (platforms s)) i s = (\<lambda>t. t_platform t \<noteq> p_name p)"
  proof (rule ext)
    fix t
    show "keeps_txn (platformMap (platforms s)) i s t \<longleftrightarrow> t_platform t \<noteq> p_name p"
    proof (cases "platformMap (platforms s) (t_platform t)")
      case None
      then show ?thesis
        by (simp add: keeps_txn_def assms(2))
    next
      case (Some q)
      then have "q \<in> set (platforms s)" "p_name q = t_platform t"
        using platformMap_SomeD by blast+
      then have "p_id q = i \<Longrightarrow> t_platform t = p_name p"
        using only by auto
      then show ?thesis
        using Some by (auto simp: keeps_txn_def assms(2))
    qed
  qed
  ultimately show ?thesis
    by (simp add: removePlatform_def)
qed

text \<open>Removing Pika from the store with Suno and Pika drops Pika and its one transaction.\<close>

theorem removePlatform_exact_witness:
  "distinct (map p_id (platforms ex_two)) \<and>
   find (\<lambda>p. p_id p = ''p2'') (platforms ex_two) = Some (ex_platform ''p2'' ''Pika'' 500) \<and>
   platforms (removePlatform ''p2'' ex_two) = [ex_platform ''p1'' ''Suno'' 1000] \<and>
   transactions (removePlatform ''p2'' ex_two) = [ex_txn ''t0'' ''Suno'' (- 40) ''2025-11-01'']"
proof -
  have h1: "distinct (map p_id (platforms ex_two))"
    by (simp add: ex_two_def ex_platform_def)
  have h2: "find (\<lambda>p. p_id p = ''p2'') (platforms ex_two) = Some (ex_platform ''p2'' ''Pika'' 500)"
    by (simp add: ex_two_def ex_platform_def)
  from removePlatform_exact[OF h1 h2]
  have "platforms (removePlatform ''p2'' ex_two) = [ex_platform ''p1'' ''Suno'' 1000]"
    and "transactions (removePlatform ''p2'' ex_two) =
         [ex_txn ''t0'' ''Suno'' (- 40) ''2025-11-01'']"
    by (simp_all add: ex_two_def ex_platform_def ex_txn_def)
  with h1 h2 show ?thesis
    by blast
qed

subsection \<open>Burn rate and forecast\<close>

lemma last30_filter: "last30 parseDate now txns = filter (on_or_after_cut parseDate now) txns"
  unfolding last30_def cut_def on_or_after_cut_def
  by (rule filter_cong[OF refl]) (simp split: option.split)

lemma no_spend: "toFixed2 (js_div (Fin 0) (Fin 30)) = Fin 0"
  by code_simp

lemma dailyBurn_spent30:
  "dailyBurn (last30 parseDate now txns) =
     toFixed2 (js_div (spent30 parseDate now txns) (Fin 30))"
proof (cases "last30 parseDate now txns = []")
  case True
  then have "filter (\<lambda>t. js_less (t_amount t) (Fin 0) \<and> on_or_after_cut parseDate now t) txns = []"
    unfolding last30_filter by (auto simp: filter_empty_conv)
  then show ?thesis
    using True no_spend by (simp add: dailyBurn_def spent30_def)
next
  case False
  have "filter (\<lambda>t. js_less (t_amount t) (Fin 0)) (last30 parseDate now txns) =
        filter (\<lambda>t. js_less (t_amount t) (Fin 0) \<and> on_or_after_cut parseDate now t) txns"
    unfolding last30_filter by (simp add: conj_commute)
  then show ?thesis
    using False by (simp add: dailyBurn_def spent30_def foldl_map)
qed

lemma quotient_nonneg:
  "js_div (spent30 parseDate now txns) (Fin 30) = Fin q \<Longrightarrow> 0 \<le> q"
  using js_div_30_nonneg[OF spent30_nonneg, of parseDate now txns] by (simp add: js_nonneg_def)

lemma spend_120_40:
  "toFixed2 (js_div (js_add (js_add (Fin 0) (js_abs (Fin (- 120)))) (js_abs (Fin (- 40))))
     (Fin 30)) = round64 (533 / 100)"
  by code_simp

text \<open>
  C4. For every transaction list and clock reading, \<^verbatim>\<open>dailyBurn\<close> is the sum of the
  magnitudes of the negative amounts dated on or after the clock minus 30 days, divided
  by 30 and rounded to two decimals, all in JavaScript's arithmetic: the sum and the
  quotient are binary64 results, and of a finite quotient \<open>q\<close> below \<open>10\<^sup>2\<^sup>1\<close>, which is
  never negative, the result is the number written as \<open>q\<close> rounded to the nearest hundredth,
  a half going up. When the transactions of the last 30 days are exactly one of - 120 and
  one of - 40, it is the number 5.33.
\<close>

theorem dailyBurn_rounded_average:
  "dailyBurn (last30 parseDate now txns) =
     toFixed2 (js_div (spent30 parseDate now txns) (Fin 30)) \<and>
   (\<forall>q. js_div (spent30 parseDate now txns) (Fin 30) = Fin q \<and> q < 10 ^ 21 \<longrightarrow>
      0 \<le> q \<and>
      dailyBurn (last30 parseDate now txns) = round64 (of_int (round (q * 100)) / 100)) \<and>
   (map t_amount (last30 parseDate now txns) = [Fin (- 120), Fin (- 40)] \<longrightarrow>
      dailyBurn (last30 parseDate now txns) = round64 (533 / 100))"
proof (intro conjI allI impI)
  show "dailyBurn (last30 parseDate now txns) =
     toFixed2 (js_div (spent30 parseDate now txns) (Fin 30))"
    by (rule dailyBurn_spent30)
next
  fix q
  assume h: "js_div (spent30 parseDate now txns) (Fin 30) = Fin q \<and> q < 10 ^ 21"
  then show q: "0 \<le> q"
    using quotient_nonneg by blast
  show "dailyBurn (last30 parseDate now txns) = round64 (of_int (round (q * 100)) / 100)"
    using h q by (simp add: dailyBurn_spent30 round_def)
next
  assume "map t_amount (last30 parseDate now txns) = [Fin (- 120), Fin (- 40)]"
  then obtain t1 t2 where l: "last30 parseDate now txns = [t1, t2]"
    and am: "t_amount t1 = Fin (- 120)" "t_amount t2 = Fin (- 40)"
    by (auto simp: map_eq_Cons_conv)
  show "dailyBurn (last30 parseDate now txns) = round64 (533 / 100)"
    unfolding l using spend_120_40 by (simp add: dailyBurn_def am)
qed

text \<open>
  A ledger read on 2025-11-10: spends of 120 and 40 one and two days back, a spend of
  75 dated 31 days back and one with an unreadable date. Only the first two count; their
  quotient by 30 is the binary64 value next to 16/3, and the burn is the number 5.33.
\<close>

theorem dailyBurn_rounded_average_witness:
  "map t_amount (last30 ex_parseDate 1762732800000 ex_ledger) = [Fin (- 120), Fin (- 40)] \<and>
   (js_div (spent30 ex_parseDate 1762732800000 ex_ledger) (Fin 30) =
      Fin (6004799503160661 / 1125899906842624) \<and>
    (6004799503160661 / 1125899906842624 :: rat) < 10 ^ 21) \<and>
   dailyBurn (last30 ex_parseDate 1762732800000 ex_ledger) = round64 (533 / 100) \<and>
   dailyBurn (last30 ex_parseDate 1762732800000 ex_ledger) =
     round64 (of_int (round ((6004799503160661 / 1125899906842624 :: rat) * 100)) / 100)"
proof -
  have h: "map t_amount (last30 ex_parseDate 1762732800000 ex_ledger) = [Fin (- 120), Fin (- 40)]"
    by (simp add: last30_def cut_def ex_parseDate_def ex_ledger_def ex_txn_def)
  have "spent30 ex_parseDate 1762732800000 ex_ledger =
        js_add (js_add (Fin 0) (js_abs (Fin (- 120)))) (js_abs (Fin (- 40)))"
    by (simp add: spent30_def on_or_after_cut_def ex_parseDate_def ex_ledger_def ex_txn_def)
  moreover have "js_div (js_add (js_add (Fin 0) (js_abs (Fin (- 120)))) (js_abs (Fin (- 40))))
      (Fin 30) = Fin (6004799503160661 / 1125899906842624)"
    by code_simp
  ultimately have k: "js_div (spent30 ex_parseDate 1762732800000 ex_ledger) (Fin 30) =
      Fin (6004799503160661 / 1125899906842624) \<and>
    (6004799503160661 / 1125899906842624 :: rat) < 10 ^ 21"
    by simp
  note a = dailyBurn_rounded_average[of ex_parseDate 1762732800000 ex_ledger]
  from a h have c1: "dailyBurn (last30 ex_parseDate 1762732800000 ex_ledger) = round64 (533 / 100)"
    by blast
  from a k have c2: "dailyBurn (last30 ex_parseDate 1762732800000 ex_ledger) =
     round64 (of_int (round ((6004799503160661 / 1125899906842624 :: rat) * 100)) / 100)"
    by blast
  show ?thesis
    using h k c1 c2 by blast
qed





subsection \<open>The filtered transaction view\<close>

lemma localeCompare_le0: "localeCompare a b \<le> 0 \<longleftrightarrow> a \<le> b"
  by (auto simp: localeCompare_def)

lemma mset_insert_cmp: "mset (insert_cmp cmp x ys) = add_mset x (mset ys)"
  by (induction ys) auto

lemma set_insert_cmp: "set (insert_cmp cmp x ys) = insert x (set ys)"
  by (induction ys) auto

lemma sorted_insert_cmp:
  fixes key :: "'a \<Rightarrow> string"
  assumes "\<And>a b. cmp a b \<le> 0 \<longleftrightarrow> key b \<le> key a"
  shows "sorted_wrt (\<lambda>a b. key b \<le> key a) ys \<Longrightarrow>
         sorted_wrt (\<lambda>a b. key b \<le> key a) (insert_cmp cmp x ys)"
  using assms by (induction ys) (auto simp: set_insert_cmp)

lemma filter_insert_cmp:
  fixes key :: "'a \<Rightarrow> string"
  assumes "\<And>a b. cmp a b \<le> 0 \<longleftrightarrow> key b \<le> key a"
  shows "filter (\<lambda>t. key t = d) (insert_cmp cmp x ys) =
         (if key x = d then x # filter (\<lambda>t. key t = d) ys else filter (\<lambda>t. key t = d) ys)"
  using assms by (induction ys) auto

lemma sort_cmp_props:
  fixes key :: "'a \<Rightarrow> string"
  assumes "\<And>a b. cmp a b \<le> 0 \<longleftrightarrow> key b \<le> key a"
  shows "mset (sort_cmp cmp xs) = mset xs"
    and "sorted_wrt (\<lambda>a b. key b \<le> key a) (sort_cmp cmp xs)"
    and "filter (\<lambda>t. key t = d) (sort_cmp cmp xs) = filter (\<lambda>t. key t = d) xs"
proof -
  show "mset (sort_cmp cmp xs) = mset xs"
    by (induction xs) (simp_all add: sort_cmp_def mset_insert_cmp)
  show "sorted_wrt (\<lambda>a b. key b \<le> key a) (sort_cmp cmp xs)"
    by (induction xs) (simp_all add: sort_cmp_def sorted_insert_cmp[OF assms])
  show "filter (\<lambda>t. key t = d) (sort_cmp cmp xs) = filter (\<lambda>t. key t = d) xs"
    by (induction xs) (simp_all add: sort_cmp_def filter_insert_cmp[OF assms])
qed

text \<open>
  C9, as amended. For every transaction list and every filter value, the view holds
  exactly the transactions whose platform is the selected name (all of them for
  \<^verbatim>\<open>All\<close>), each as often as the list does, in descending order of the date string; and
  the transactions of one date stand in the order they have in the transaction list.
\<close>

theorem filteredTxns_stable:
  "mset (filteredTxns flt txns) = mset (filter (matches flt) txns) \<and>
   sorted_wrt (\<lambda>a b. t_date b \<le> t_date a) (filteredTxns flt txns) \<and>
   (\<forall>d. filter (\<lambda>t. t_date t = d) (filteredTxns flt txns) =
        filter (\<lambda>t. t_date t = d) (filter (matches flt) txns))"
proof -
  have c: "\<And>a b. localeCompare (t_date b) (t_date a) \<le> 0 \<longleftrightarrow> t_date b \<le> t_date a"
    by (rule localeCompare_le0)
  show ?thesis
    unfolding filteredTxns_def
    using sort_cmp_props[of "\<lambda>a b. localeCompare (t_date b) (t_date a)" t_date, OF c]
    by blast
qed

text \<open>
  C9 as stated fails: two transactions of the same date cannot be told apart by their
  date strings, and the view shows them in the order of the list, whichever it is.
\<close>

theorem filteredTxns_ties_counterexample:
  "t_date (ex_txn ''a'' ''Suno'' (- 1) ''2025-11-01'') =
     t_date (ex_txn ''b'' ''Suno'' (- 2) ''2025-11-01'') \<and>
   filteredTxns ''All''
     [ex_txn ''a'' ''Suno'' (- 1) ''2025-11-01'', ex_txn ''b'' ''Suno'' (- 2) ''2025-11-01''] =
     [ex_txn ''a'' ''Suno'' (- 1) ''2025-11-01'', ex_txn ''b'' ''Suno'' (- 2) ''2025-11-01''] \<and>
   filteredTxns ''All''
     [ex_txn ''b'' ''Suno'' (- 2) ''2025-11-01'', ex_txn ''a'' ''Suno'' (- 1) ''2025-11-01''] =
     [ex_txn ''b'' ''Suno'' (- 2) ''2025-11-01'', ex_txn ''a'' ''Suno'' (- 1) ''2025-11-01'']"
  by (simp add: filteredTxns_def sort_cmp_def matches_def localeCompare_def ex_txn_def)

subsection \<open>CSV export\<close>

lemma separators_differ: "comma \<noteq> dquote" "comma \<noteq> newline" "newline \<noteq> dquote"
  by (simp_all add: comma_def dquote_def newline_def)

text \<open>Reading on through text without quotes and line feeds, and through a quoted cell.\<close>

lemma records_plain:
  "dquote \<notin> set w \<Longrightarrow> newline \<notin> set w \<Longrightarrow>
   records_from inq cur (w @ rest) = records_from inq (cur @ w) rest"
  by (induction w arbitrary: cur) auto

lemma records_escaped:
  "records_from True cur (replaceAll_quote v @ dquote # rest) =
   records_from False (cur @ replaceAll_quote v @ [dquote]) rest"
  by (induction v arbitrary: cur) (auto simp: replaceAll_quote_def)

lemma records_cell:
  "records_from False cur (quote_cell num_str v @ rest) =
   records_from False (cur @ quote_cell num_str v) rest"
  using records_escaped[of "cur @ [dquote]" "String num_str v" rest]
  by (simp add: quote_cell_def)

lemma records_cells:
  "records_from False cur (join [comma] (map (quote_cell num_str) r) @ rest) =
   records_from False (cur @ join [comma] (map (quote_cell num_str) r)) rest"
proof (induction r arbitrary: cur)
  case Nil
  then show ?case by simp
next
  case (Cons c r)
  show ?case
  proof (cases r)
    case Nil
    then show ?thesis
      by (simp add: records_cell)
  next
    case (Cons d r')
    let ?tail = "join [comma] (map (quote_cell num_str) r)"
    have "records_from False cur (quote_cell num_str c @ comma # ?tail @ rest) =
          records_from False (cur @ quote_cell num_str c) (comma # ?tail @ rest)"
      by (rule records_cell)
    also have "\<dots> = records_from False (cur @ quote_cell num_str c @ [comma]) (?tail @ rest)"
      using separators_differ by simp
    also have "\<dots> = records_from False (cur @ quote_cell num_str c @ [comma] @ ?tail) rest"
      using Cons.IH[of "cur @ quote_cell num_str c @ [comma]"] by simp
    finally show ?thesis
      using Cons by simp
  qed
qed

lemma records_row:
  "records_from False cur (make_row num_str r @ rest) =
   records_from False (cur @ make_row num_str r) rest"
  unfolding make_row_def by (rule records_cells)

lemma records_row_end: "records_from False [] (make_row num_str r) = [make_row num_str r]"
  using records_row[of "[]" num_str r "[]"] by simp

lemma records_row_newline:
  "records_from False [] (make_row num_str r @ newline # rest) =
   make_row num_str r # records_from False [] rest"
  using records_row[of "[]" num_str r "newline # rest"] separators_differ by simp

lemma make_Cons2:
  "make num_str (r # r' # rows) = make_row num_str r @ newline # make num_str (r' # rows)"
  by (simp add: make_def)

lemma records_make_then:
  "records_from False [] (make num_str (r # rows) @ newline # rest) =
   map (make_row num_str) (r # rows) @ records_from False [] rest"
proof (induction rows arbitrary: r)
  case Nil
  then show ?case
    by (simp add: make_def records_row_newline)
next
  case (Cons r' rows)
  then show ?case
    using Cons[of r'] by (simp add: make_Cons2 records_row_newline)
qed

lemma records_make: "csv_records (make num_str (r # rows)) = map (make_row num_str) (r # rows)"
proof (induction rows arbitrary: r)
  case Nil
  then show ?case
    by (simp add: make_def csv_records_def records_row_end)
next
  case (Cons r' rows)
  then show ?case
    using Cons[of r'] by (simp add: make_Cons2 csv_records_def records_row_newline)
qed

lemma undouble_replaceAll: "undouble (replaceAll_quote v) = v"
proof (induction v)
  case Nil
  then show ?case
    by (simp add: replaceAll_quote_def)
next
  case (Cons c v)
  show ?case
  proof (cases "c = dquote")
    case True
    then show ?thesis
      using Cons by (simp add: replaceAll_quote_def)
  next
    case False
    have r: "replaceAll_quote (c # v) = c # replaceAll_quote v"
      using False by (simp add: replaceAll_quote_def)
    show ?thesis
    proof (cases "replaceAll_quote v")
      case Nil
      then show ?thesis
        using Cons r by simp
    next
      case (Cons b bs)
      then show ?thesis
        using Cons.IH r False by simp
    qed
  qed
qed

lemma header_lines:
  "make_row num_str headers1 =
     [dquote] @ ''Platform'' @ [dquote, comma, dquote] @ ''Credits'' @ [dquote, comma, dquote] @
     ''Unit'' @ [dquote, comma, dquote] @ ''MonthlyAllowance'' @ [dquote, comma, dquote] @
     ''Account'' @ [dquote]"
  "make_row num_str headers2 =
     [dquote] @ ''Date'' @ [dquote, comma, dquote] @ ''Platform'' @ [dquote, comma, dquote] @
     ''Amount'' @ [dquote, comma, dquote] @ ''Project'' @ [dquote, comma, dquote] @
     ''Note'' @ [dquote]"
  by (simp_all add: make_row_def headers1_def headers2_def quote_cell_def replaceAll_quote_def
      dquote_def)

lemma or_str_empty: "or_str x [] = (case x of None \<Rightarrow> [] | Some v \<Rightarrow> v)"
  by (simp add: or_str_def split: option.split)

lemma exportCSV_records:
  "csv_records (exportCSV num_str s) =
     ''Balances'' # map (make_row num_str) (headers1 # rows1 s) @
     [[], ''Transactions''] @ map (make_row num_str) (headers2 # rows2 s)"
proof -
  have p: "dquote \<notin> set ''Balances''" "newline \<notin> set ''Balances''"
    "dquote \<notin> set ''Transactions''" "newline \<notin> set ''Transactions''"
    by (simp_all add: dquote_def newline_def)
  let ?p1 = "make num_str (headers1 # rows1 s)"
  let ?p2 = "make num_str (headers2 # rows2 s)"
  have "csv_records (exportCSV num_str s) =
        records_from False []
          (''Balances'' @ newline # ?p1 @ newline # newline # ''Transactions'' @ newline # ?p2)"
    by (simp add: exportCSV_def csv_records_def Let_def)
  also have "\<dots> = records_from False ''Balances''
          (newline # ?p1 @ newline # newline # ''Transactions'' @ newline # ?p2)"
    using records_plain[OF p(1,2), of False "[]"] by simp
  also have "\<dots> = ''Balances'' #
          records_from False [] (?p1 @ newline # newline # ''Transactions'' @ newline # ?p2)"
    using separators_differ by simp
  also have "records_from False [] (?p1 @ newline # newline # ''Transactions'' @ newline # ?p2) =
     map (make_row num_str) (headers1 # rows1 s) @
     records_from False [] (newline # ''Transactions'' @ newline # ?p2)"
    by (rule records_make_then)
  also have "records_from False [] (newline # ''Transactions'' @ newline # ?p2) =
     [] # records_from False [] (''Transactions'' @ newline # ?p2)"
    using separators_differ by simp
  also have "records_from False [] (''Transactions'' @ newline # ?p2) =
     records_from False ''Transactions'' (newline # ?p2)"
    using records_plain[OF p(3,4), of False "[]"] by simp
  also have "\<dots> = ''Transactions'' # csv_records ?p2"
    using separators_differ by (simp add: csv_records_def)
  finally show ?thesis
    by (simp add: records_make)
qed

lemma exportCSV_store:
  "csv_records (exportCSV num_str s) =
     ''Balances'' # make_row num_str headers1 #
     map (\<lambda>p. make_row num_str
                 [S (p_name p), N (p_credits p), S (p_unit p), N (p_monthlyAllowance p),
                  S (p_account p)]) (platforms s) @
     [[], ''Transactions'', make_row num_str headers2] @
     map (\<lambda>t. make_row num_str
                 [S (t_date t), S (t_platform t), N (t_amount t),
                  S (case t_project t of None \<Rightarrow> [] | Some v \<Rightarrow> v),
                  S (case t_note t of None \<Rightarrow> [] | Some v \<Rightarrow> v)]) (transactions s)"
  by (simp add: exportCSV_records rows1_def rows2_def or_str_empty o_def)

text \<open>
  C6. Every cell is written between quotes with each quote character inside it doubled
  (undoubling gives the cell back), the cells of a row are joined by commas and the rows
  by line feeds. Read as CSV, the exported text is the line \<^verbatim>\<open>Balances\<close>, the header
  \<^verbatim>\<open>Platform,Credits,Unit,MonthlyAllowance,Account\<close>, for every platform of the store in
  order one record of its name, credits, unit, monthly allowance and account, an empty
  line, the line \<^verbatim>\<open>Transactions\<close>, the header \<^verbatim>\<open>Date,Platform,Amount,Project,Note\<close>, and for
  every transaction of the store in order one record of its date, platform, amount,
  project and note (empty when absent): five records more than the store has platforms
  and transactions. Whatever quotes and line feeds the cells hold, every row of a table
  is one record, so a header and \<open>n\<close> rows give \<open>n + 1\<close> records. The table of the
  development test keeps its first row, with \<^verbatim>\<open>B"2\<close> and the cell holding a line feed, as
  one record of two, and cutting its text at every line feed gives the three pieces the
  test asserts.
\<close>

theorem exportCSV_layout:
  "csv_records (exportCSV num_str s) =
     ''Balances'' # make_row num_str headers1 #
     map (\<lambda>p. make_row num_str
                 [S (p_name p), N (p_credits p), S (p_unit p), N (p_monthlyAllowance p),
                  S (p_account p)]) (platforms s) @
     [[], ''Transactions'', make_row num_str headers2] @
     map (\<lambda>t. make_row num_str
                 [S (t_date t), S (t_platform t), N (t_amount t),
                  S (case t_project t of None \<Rightarrow> [] | Some v \<Rightarrow> v),
                  S (case t_note t of None \<Rightarrow> [] | Some v \<Rightarrow> v)]) (transactions s) \<and>
   length (csv_records (exportCSV num_str s)) =
     length (platforms s) + length (transactions s) + 5 \<and>
   make num_str rows = join [newline] (map (make_row num_str) rows) \<and>
   make_row num_str r =
     join [comma] (map (\<lambda>v. [dquote] @ replaceAll_quote (String num_str v) @ [dquote]) r) \<and>
   undouble (replaceAll_quote (String num_str v)) = String num_str v \<and>
   make_row num_str headers1 =
     [dquote] @ ''Platform'' @ [dquote, comma, dquote] @ ''Credits'' @ [dquote, comma, dquote] @
     ''Unit'' @ [dquote, comma, dquote] @ ''MonthlyAllowance'' @ [dquote, comma, dquote] @
     ''Account'' @ [dquote] \<and>
   make_row num_str headers2 =
     [dquote] @ ''Date'' @ [dquote, comma, dquote] @ ''Platform'' @ [dquote, comma, dquote] @
     ''Amount'' @ [dquote, comma, dquote] @ ''Project'' @ [dquote, comma, dquote] @
     ''Note'' @ [dquote] \<and>
   csv_records (make num_str (h # rows)) = map (make_row num_str) (h # rows) \<and>
   length (csv_records (make num_str (h # rows))) = length rows + 1 \<and>
   make_row num_str (hd dev_rows) =
     [dquote] @ ''A,1'' @ [dquote, comma, dquote] @ [CHR ''B'', dquote, dquote, CHR ''2''] @
     [dquote, comma, dquote] @ [CHR ''C'', newline, CHR ''3''] @ [dquote] \<and>
   csv_records (make num_str dev_rows) = map (make_row num_str) dev_rows \<and>
   length dev_rows = 2 \<and>
   length (split newline (make num_str dev_rows)) = 3"
proof -
  have quoted: "make_row num_str r =
      join [comma] (map (\<lambda>v. [dquote] @ replaceAll_quote (String num_str v) @ [dquote]) r)"
    by (simp add: make_row_def quote_cell_def[abs_def])
  have dev1: "make_row num_str (hd dev_rows) =
     [dquote] @ ''A,1'' @ [dquote, comma, dquote] @ [CHR ''B'', dquote, dquote, CHR ''2''] @
     [dquote, comma, dquote] @ [CHR ''C'', newline, CHR ''3''] @ [dquote]"
    by (simp add: dev_rows_def make_row_def quote_cell_def replaceAll_quote_def dquote_def
        newline_def)
  have dev2: "csv_records (make num_str dev_rows) = map (make_row num_str) dev_rows"
    unfolding dev_rows_def by (rule records_make)
  have dev3: "length (split newline (make num_str dev_rows)) = 3"
    by (simp add: dev_rows_def make_def make_row_def quote_cell_def replaceAll_quote_def
        dquote_def newline_def comma_def)
  have dev4: "length dev_rows = 2"
    by (simp add: dev_rows_def)
  have len: "length (csv_records (make num_str (h # rows))) = length rows + 1"
    by (simp add: records_make)
  have count: "length (csv_records (exportCSV num_str s)) =
     length (platforms s) + length (transactions s) + 5"
    by (simp add: exportCSV_store)
  show ?thesis
    using exportCSV_store[of num_str s] count quoted undouble_replaceAll[of "String num_str v"]
      header_lines[of num_str] records_make[of num_str h rows] len dev1 dev2 dev3 dev4
      make_def[of num_str rows]
    by blast
qed

subsection \<open>Loading the stored state\<close>

text \<open>
  C7. When reading the key throws, the key is absent or empty, or the stored text does
  not parse (or parses to \<^verbatim>\<open>null\<close>), the built-in default state is used as a whole. When
  the stored object has platforms and no \<^verbatim>\<open>transactions\<close> key, the stored platforms are
  kept and the transactions are the six demo transactions; when it has transactions and
  no \<^verbatim>\<open>platforms\<close> key, the stored transactions are kept and the platforms are the six
  presets with 1000 credits each.
\<close>

theorem loadState_fallback:
  "((raw = Throws \<or> raw = Null \<or> raw = Item [] \<or>
     (\<exists>r. raw = Item r \<and> (parse r = None \<or> parse r = Some ParsedNull))) \<longrightarrow>
      loadState (initialState uuid days) parse raw = initialState uuid days) \<and>
   (r \<noteq> [] \<and> parse r = Some (ParsedObject (Value ps) Undefined) \<longrightarrow>
      loadState (initialState uuid days) parse (Item r) =
        \<lparr>platforms = ps, transactions = demoTransactions uuid days\<rparr> \<and>
      length (demoTransactions uuid days) = 6) \<and>
   (r \<noteq> [] \<and> parse r = Some (ParsedObject Undefined (Value ts)) \<longrightarrow>
      loadState (initialState uuid days) parse (Item r) =
        \<lparr>platforms = platforms (initialState uuid days), transactions = ts\<rparr> \<and>
      map p_credits (platforms (initialState uuid days)) =
        [Fin 1000, Fin 1000, Fin 1000, Fin 1000, Fin 1000, Fin 1000])"
  by (auto simp: loadState_def nullish_def initialState_def demoTransactions_def
      PLATFORM_PRESETS_def enumerate_eq_zip upt_rec)

text \<open>
  A malformed text gives the default state; \<^verbatim>\<open>{"platforms":[]}\<close> keeps the empty platform
  list and gets the demo transactions; \<^verbatim>\<open>{"transactions":[]}\<close> keeps the empty transaction
  list and gets the preset platforms.
\<close>

theorem loadState_fallback_witness:
  "loadState (initialState (\<lambda>k. ''id'') (\<lambda>n. ''2025-11-01'')) ex_parse (Item ''{oops'') =
     initialState (\<lambda>k. ''id'') (\<lambda>n. ''2025-11-01'') \<and>
   loadState (initialState (\<lambda>k. ''id'') (\<lambda>n. ''2025-11-01'')) ex_parse
       (Item (''{'' @ [dquote] @ ''platforms'' @ [dquote] @ '':[]}'')) =
     \<lparr>platforms = [], transactions = demoTransactions (\<lambda>k. ''id'') (\<lambda>n. ''2025-11-01'')\<rparr> \<and>
   loadState (initialState (\<lambda>k. ''id'') (\<lambda>n. ''2025-11-01'')) ex_parse
       (Item (''{'' @ [dquote] @ ''transactions'' @ [dquote] @ '':[]}'')) =
     \<lparr>platforms = platforms (initialState (\<lambda>k. ''id'') (\<lambda>n. ''2025-11-01'')),
      transactions = []\<rparr>"
proof -
  let ?i = "initialState (\<lambda>k. ''id'') (\<lambda>n. ''2025-11-01'')"
  let ?p = "''{'' @ [dquote] @ ''platforms'' @ [dquote] @ '':[]}''"
  let ?t = "''{'' @ [dquote] @ ''transactions'' @ [dquote] @ '':[]}''"
  have h1: "Item ''{oops'' = Throws \<or> Item ''{oops'' = Null \<or> Item ''{oops'' = Item [] \<or>
     (\<exists>r. Item ''{oops'' = Item r \<and> (ex_parse r = None \<or> ex_parse r = Some ParsedNull))"
    by (simp add: ex_parse_def dquote_def)
  have h2: "?p \<noteq> [] \<and> ex_parse ?p = Some (ParsedObject (Value []) Undefined)"
    by (simp add: ex_parse_def)
  have h3: "?t \<noteq> [] \<and> ex_parse ?t = Some (ParsedObject Undefined (Value []))"
    by (simp add: ex_parse_def dquote_def)
  note a = loadState_fallback[of "Item ''{oops''" ex_parse "\<lambda>k. ''id''" "\<lambda>n. ''2025-11-01''"
      ?p "[]" "[]"]
  note b = loadState_fallback[of "Item ''{oops''" ex_parse "\<lambda>k. ''id''" "\<lambda>n. ''2025-11-01''"
      ?t "[]" "[]"]
  from a h1 have c1: "loadState ?i ex_parse (Item ''{oops'') = ?i"
    by blast
  from a h2 have c2: "loadState ?i ex_parse (Item ?p) =
     \<lparr>platforms = [], transactions = demoTransactions (\<lambda>k. ''id'') (\<lambda>n. ''2025-11-01'')\<rparr>"
    by blast
  from b h3 have c3: "loadState ?i ex_parse (Item ?t) = \<lparr>platforms = platforms ?i, transactions = []\<rparr>"
    by blast
  show ?thesis
    using c1 c2 c3 by blast
qed

end
